theory Spec2Isabelle
  imports Complex_Main "HOL-Library.Stream" "HOL-Library.Sublist"
begin

section \<open>The content API (hospital\_website/app.py)\<close>

text \<open>
  The value that \<^verbatim>\<open>request.get_json()\<close> hands to the handler is a parsed JSON document
  (a body that does not parse is answered by the framework and never reaches the code of
  the handler). An object is kept as the list of its items; \<open>map_of\<close> reads it as the
  dictionary.
\<close>

datatype json =
    JNull
  | JBool bool
  | JNum real
  | JStr string
  | JArr "json list"
  | JObj "(string \<times> json) list"

text \<open>Python truthiness, as used by \<^verbatim>\<open>if not data\<close>.\<close>

fun truthy :: "json \<Rightarrow> bool" where
  "truthy JNull = False"
| "truthy (JBool b) = b"
| "truthy (JNum r) = (r \<noteq> 0)"
| "truthy (JStr s) = (s \<noteq> [])"
| "truthy (JArr xs) = (xs \<noteq> [])"
| "truthy (JObj kvs) = (kvs \<noteq> [])"

text \<open>\<^verbatim>\<open>d.get(key, default)\<close> on a dictionary.\<close>

definition dict_get :: "(string \<times> json) list \<Rightarrow> string \<Rightarrow> json \<Rightarrow> json" where
  "dict_get kvs k dflt = (case map_of kvs k of Some v \<Rightarrow> v | None \<Rightarrow> dflt)"

text \<open>
  The global \<^verbatim>\<open>WEBSITE_METADATA\<close>: a dictionary with four fixed keys. The handler stores
  whatever value the request carries, so the fields hold JSON values.
\<close>

record website_metadata =
  title :: json
  description :: json
  page_h1 :: json
  page_paragraph :: json

definition WEBSITE_METADATA :: website_metadata where
  "WEBSITE_METADATA =
     \<lparr> title = JStr ''Default Title | Apollo Hospitals'',
       description = JStr ''This is the default description.'',
       page_h1 = JStr ''Best Orthopedics Hospital in Chennai'',
       page_paragraph = JStr ''The Department of Orthopaedics at Apollo Hospitals, Chennai is renowned for delivering advanced Orthopaedics care.'' \<rparr>"

text \<open>
  A response is the status code with the \<^verbatim>\<open>jsonify\<close> body. A value that is truthy but
  not a dictionary has no \<^verbatim>\<open>get\<close>: the first assignment raises before anything is stored.
\<close>

datatype py_error = AttributeError | Exception string

record response =
  status_code :: nat
  body :: "(string \<times> string) list"

definition update_metadata ::
    "website_metadata \<Rightarrow> json \<Rightarrow> website_metadata \<times> (py_error + response)" where
  "update_metadata md data =
     (if \<not> truthy data then
        (md, Inr \<lparr> status_code = 400,
                   body = [(''status'', ''error''), (''message'', ''Missing JSON payload'')] \<rparr>)
      else case data of
        JObj kvs \<Rightarrow>
          (let md1 = md\<lparr> title := dict_get kvs ''title'' (title md) \<rparr>;
               md2 = md1\<lparr> description := dict_get kvs ''description'' (description md1) \<rparr>;
               md3 = md2\<lparr> page_h1 := dict_get kvs ''page_h1'' (page_h1 md2) \<rparr>;
               md4 = md3\<lparr> page_paragraph :=
                              dict_get kvs ''page_paragraph'' (page_paragraph md3) \<rparr>
           in (md4, Inr \<lparr> status_code = 200,
                          body = [(''status'', ''success''),
                                  (''message'', ''Website content updated.'')] \<rparr>))
      | _ \<Rightarrow> (md, Inl AttributeError))"

section \<open>The random sources of the generator (db.py)\<close>

text \<open>
  The script draws from four independent sources: Python's \<^verbatim>\<open>random\<close> module, numpy's
  global generator, Faker's own generator and the operating system (\<^verbatim>\<open>uuid.uuid4\<close>).
  Each is an infinite stream of outcomes, threaded through the script as explicit state.
  An element of \<open>py_random\<close> is the raw outcome behind one call of the module: the call
  reduces it into its range, so every stream is a possible run and every value of the
  range is reached by some stream. An element of \<open>np_random\<close> is likewise the raw outcome
  behind one standard normal deviate. Floating-point numbers are modelled by real
  numbers: a literal by the decimal it writes, an operation by the exact operation.
\<close>

record rng =
  py_random :: "nat stream"
  np_random :: "real stream"
  faker_random :: "string stream"
  os_random :: "string stream"

text \<open>
  \<^verbatim>\<open>random.randint(a, b)\<close>: an integer of the closed range \<open>a..b\<close>. Every call of the
  script has literal bounds with \<open>a \<le> b\<close>.
\<close>

definition randint :: "int \<Rightarrow> int \<Rightarrow> rng \<Rightarrow> int \<times> rng" where
  "randint a b r =
     (a + int (shd (py_random r) mod nat (b - a + 1)),
      r\<lparr> py_random := stl (py_random r) \<rparr>)"

text \<open>\<^verbatim>\<open>random.random()\<close>: a multiple of \<open>2\<^sup>-\<^sup>5\<^sup>3\<close> in \<open>[0, 1)\<close>.\<close>

definition random_random :: "rng \<Rightarrow> real \<times> rng" where
  "random_random r =
     (real (shd (py_random r) mod 2 ^ 53) / 2 ^ 53,
      r\<lparr> py_random := stl (py_random r) \<rparr>)"

text \<open>
  \<^verbatim>\<open>random.choice(seq)\<close>. The script calls it on literal lists and on the keys of
  \<open>PAGE_MAP\<close> only, all of them non-empty (on an empty sequence Python raises).
\<close>

definition choice :: "'a list \<Rightarrow> rng \<Rightarrow> 'a \<times> rng" where
  "choice xs r =
     (xs ! (shd (py_random r) mod length xs),
      r\<lparr> py_random := stl (py_random r) \<rparr>)"

text \<open>
  \<^verbatim>\<open>np.random.normal(loc, scale)\<close>: the location plus the scaled standard normal deviate.
  numpy's global generator makes the deviate by the polar method from two uniform draws
  of 53 bits, so its absolute value is at most the square root of \<open>2 * 104 * ln 2\<close>,
  which is below 12.0073. The raw outcome is reduced into this range.
\<close>

definition deviate_bound :: real where
  "deviate_bound = 12.0073"

definition standard_normal :: "rng \<Rightarrow> real \<times> rng" where
  "standard_normal r =
     (max (- deviate_bound) (min deviate_bound (shd (np_random r))),
      r\<lparr> np_random := stl (np_random r) \<rparr>)"

definition normal :: "real \<Rightarrow> real \<Rightarrow> rng \<Rightarrow> real \<times> rng" where
  "normal loc scale r =
     (let (deviate, r') = standard_normal r in (loc + scale * deviate, r'))"

definition fake_uuid4 :: "rng \<Rightarrow> string \<times> rng" where
  "fake_uuid4 r = (shd (faker_random r), r\<lparr> faker_random := stl (faker_random r) \<rparr>)"

definition uuid_uuid4 :: "rng \<Rightarrow> string \<times> rng" where
  "uuid_uuid4 r = (shd (os_random r), r\<lparr> os_random := stl (os_random r) \<rparr>)"

text \<open>Python's \<^verbatim>\<open>int(x)\<close> on a float: truncation towards zero.\<close>

definition py_int :: "real \<Rightarrow> int" where
  "py_int x = (if 0 \<le> x then \<lfloor>x\<rfloor> else \<lceil>x\<rceil>)"

text \<open>
  A \<^verbatim>\<open>for\<close> loop whose body appends rows to a table and draws from the random
  sources: the rows of the iterations in order, and the sources after the last one.
\<close>

fun for_each :: "('a \<Rightarrow> 's \<Rightarrow> 'b list \<times> 's) \<Rightarrow> 'a list \<Rightarrow> 's \<Rightarrow> 'b list \<times> 's" where
  "for_each f [] s = ([], s)"
| "for_each f (x # xs) s =
     (let (ys, s1) = f x s;
          (zs, s2) = for_each f xs s1
      in (ys @ zs, s2))"

section \<open>Configuration and catalogs (db.py)\<close>

definition NUM_DAYS :: nat where
  "NUM_DAYS = 90"

definition HOSPITAL_HOSTNAME :: string where
  "HOSPITAL_HOSTNAME = ''www.apollohospitals.com''"

definition PRIMARY_CITY :: string where
  "PRIMARY_CITY = ''Chennai''"

definition PRIMARY_REGION :: string where
  "PRIMARY_REGION = ''Tamil Nadu''"

definition PRIMARY_COUNTRY_CODE :: string where
  "PRIMARY_COUNTRY_CODE = ''IN''"

definition PRIMARY_COUNTRY_NAME :: string where
  "PRIMARY_COUNTRY_NAME = ''India''"

text \<open>The dictionaries are kept as their items, in insertion order, as the loops visit them.\<close>

definition GSC_QUERIES :: "(string \<times> string) list" where
  "GSC_QUERIES =
     [(''knee pain'', ''/blog/knee-pain-causes-and-treatments/''),
      (''best orthopedic surgeon in chennai'', ''/chennai/centres-of-excellence/orthopedics/''),
      (''hip replacement options'', ''/chennai/centres-of-excellence/orthopedics/hip-replacement''),
      (''sports injury clinic chennai'', ''/chennai/centres-of-excellence/orthopedics/sports-medicine''),
      (''shoulder surgery recovery time'', ''/blog/shoulder-surgery-recovery-guide/''),
      (''apollo chennai appointment'', ''/chennai/patients/appointments''),
      (''best cardiologist in chennai'', ''/chennai/centres-of-excellence/cardiology/''),
      (''heart attack symptoms'', ''/blog/understanding-heart-attack-symptoms/''),
      (''maternity packages chennai'', ''/chennai/centres-of-excellence/maternity/packages'')]"

record video_meta =
  title_of :: string
  duration_sec :: int
  avg_view_sec :: int

definition YT_VIDEOS :: "(string \<times> video_meta) list" where
  "YT_VIDEOS =
     [(''yt_apollo_ortho_team_01'',
        \<lparr> title_of = ''Meet Our Orthopedic Team - Apollo Chennai'',
          duration_sec = 180, avg_view_sec = 30 \<rparr>),
      (''yt_apollo_cardio_proc_02'',
        \<lparr> title_of = ''What to Expect During an Angioplasty'',
          duration_sec = 240, avg_view_sec = 90 \<rparr>),
      (''yt_apollo_maternity_tour_03'',
        \<lparr> title_of = ''Virtual Tour of Apollo Maternity Ward Chennai'',
          duration_sec = 210, avg_view_sec = 120 \<rparr>)]"

definition PAGE_MAP :: "(string \<times> string) list" where
  "PAGE_MAP =
     [(''/'', ''Homepage | Apollo Hospitals''),
      (''/chennai/centres-of-excellence/orthopedics/'', ''Best Orthopedic Hospital in Chennai | Apollo''),
      (''/blog/knee-pain-causes-and-treatments/'', ''Knee Pain Causes & Treatments''),
      (''/doctors/chennai/dr-aravind-kumar'', ''Dr. Aravind Kumar - Orthopedic Surgeon''),
      (''/chennai/patients/appointments'', ''Book an Appointment | Apollo Chennai''),
      (''/chennai/centres-of-excellence/cardiology/'', ''Best Cardiology Hospital in Chennai | Apollo''),
      (''/blog/understanding-heart-attack-symptoms/'', ''Understanding Heart Attack Symptoms''),
      (''/chennai/centres-of-excellence/maternity/packages'', ''Maternity Packages at Apollo Chennai'')]"

text \<open>\<^verbatim>\<open>PAGE_MAP[page_path]\<close>, for a key of the dictionary.\<close>

definition page_title_of :: "string \<Rightarrow> string" where
  "page_title_of p = (case map_of PAGE_MAP p of Some t \<Rightarrow> t | None \<Rightarrow> [])"

section \<open>1. GSC performance rows\<close>

text \<open>
  Dates are kept as the number of the day counted from \<open>START_DATE\<close>, and times as seconds
  counted from midnight of \<open>START_DATE\<close>; their rendering as text is left out.
\<close>

record gsc_row =
  gsc_partition_date :: nat
  gsc_query :: string
  gsc_page_url :: string
  gsc_country :: string
  gsc_device :: string
  gsc_clicks :: int
  gsc_impressions :: int
  gsc_sum_position :: int

text \<open>The three draws of one row, in the order of the source.\<close>

definition draw_impressions :: "string \<Rightarrow> rng \<Rightarrow> int \<times> rng" where
  "draw_impressions query r =
     (if \<not> sublist ''best'' query then randint 50 8000 r else randint 500 10000 r)"

definition draw_ctr :: "string \<Rightarrow> rng \<Rightarrow> real \<times> rng" where
  "draw_ctr query r =
     (if query = ''shoulder surgery recovery time'' then normal 0.005 0.001 r
      else normal 0.08 0.03 r)"

definition draw_avg_position :: "string \<Rightarrow> rng \<Rightarrow> real \<times> rng" where
  "draw_avg_position query r =
     (if sublist ''best'' query then normal 3.5 1.5 r else normal 8 4 r)"

definition gsc_row_of :: "nat \<Rightarrow> string \<times> string \<Rightarrow> string \<Rightarrow> rng \<Rightarrow> gsc_row \<times> rng" where
  "gsc_row_of day qp device r =
     (let (query, page) = qp;
          (impressions, r1) = draw_impressions query r;
          (ctr, r2) = draw_ctr query r1;
          clicks = max 0 (py_int (real_of_int impressions * ctr));
          (avg_position, r3) = draw_avg_position query r2;
          sum_position = py_int (avg_position * real_of_int impressions)
      in (\<lparr> gsc_partition_date = day,
             gsc_query = query,
             gsc_page_url = ''https://'' @ HOSPITAL_HOSTNAME @ page,
             gsc_country = PRIMARY_COUNTRY_CODE,
             gsc_device = device,
             gsc_clicks = clicks,
             gsc_impressions = impressions,
             gsc_sum_position = sum_position \<rparr>, r3))"

definition gsc_data :: "nat \<Rightarrow> (string \<times> string) list \<Rightarrow> rng \<Rightarrow> gsc_row list \<times> rng" where
  "gsc_data num_days queries =
     for_each (\<lambda>day.
       for_each (\<lambda>qp.
         for_each (\<lambda>device r. let (row, r') = gsc_row_of day qp device r in ([row], r'))
           [''MOBILE'', ''DESKTOP''])
         queries)
       [0..<num_days]"

section \<open>2. YouTube analytics rows\<close>

record yt_row =
  yt_partition_date :: nat
  yt_external_video_id :: string
  yt_video_title :: string
  yt_country_code :: string
  yt_age_group :: string
  yt_gender :: string
  yt_device_type :: string
  yt_traffic_source_type :: string
  yt_views :: int
  yt_watch_time_msec :: int
  yt_potential_watch_time_msec :: int
  yt_likes_added :: int
  yt_shares :: int
  yt_comments_added :: int
  yt_subscribers_gained :: int

definition yt_row_of :: "nat \<Rightarrow> string \<times> video_meta \<Rightarrow> rng \<Rightarrow> yt_row \<times> rng" where
  "yt_row_of day video r =
     (let (video_id, video_meta) = video;
          (views, r1) = randint 50 1500 r;
          watch_time_msec = views * avg_view_sec video_meta * 1000;
          potential_watch_time_msec = views * duration_sec video_meta * 1000;
          (age_group, r2) = choice [''25-34'', ''35-44'', ''45-54'', ''55-64''] r1;
          (gender, r3) = choice [''MALE'', ''FEMALE''] r2;
          (device_type, r4) = choice [''MOBILE'', ''DESKTOP'', ''TABLET''] r3;
          (traffic_source_type, r5) =
             choice [''YT_SEARCH'', ''YT_RELATED'', ''SUBSCRIBER'', ''EXT_URL''] r4;
          (like_rate, r6) = normal 0.02 0.005 r5;
          (share_rate, r7) = normal 0.005 0.002 r6;
          (comment_rate, r8) = normal 0.002 0.001 r7;
          (subscriber_rate, r9) = normal 0.001 0.0005 r8
      in (\<lparr> yt_partition_date = day,
             yt_external_video_id = video_id,
             yt_video_title = title_of video_meta,
             yt_country_code = PRIMARY_COUNTRY_CODE,
             yt_age_group = age_group,
             yt_gender = gender,
             yt_device_type = device_type,
             yt_traffic_source_type = traffic_source_type,
             yt_views = views,
             yt_watch_time_msec = watch_time_msec,
             yt_potential_watch_time_msec = potential_watch_time_msec,
             yt_likes_added = py_int (real_of_int views * like_rate),
             yt_shares = py_int (real_of_int views * share_rate),
             yt_comments_added = py_int (real_of_int views * comment_rate),
             yt_subscribers_gained = py_int (real_of_int views * subscriber_rate) \<rparr>, r9))"

definition yt_data :: "nat \<Rightarrow> (string \<times> video_meta) list \<Rightarrow> rng \<Rightarrow> yt_row list \<times> rng" where
  "yt_data num_days videos =
     for_each (\<lambda>day.
       for_each (\<lambda>video r. let (row, r') = yt_row_of day video r in ([row], r')) videos)
       [0..<num_days]"

section \<open>3. GA session rows\<close>

record page_info =
  page_path :: string
  page_title :: string
  hostname :: string

record event_details =
  event_category :: string
  event_action :: string
  event_label :: string

record hit =
  hit_number :: nat
  hit_time :: int
  hit_type :: string
  page :: "page_info option"
  event_info :: "event_details option"

record totals =
  pageviews :: nat
  time_on_site_seconds :: int
  bounces :: nat

record geo =
  geo_country :: string
  geo_region :: string
  geo_city :: string

record traffic_source =
  source :: string
  medium :: string
  campaign :: string

record ga_row =
  ga_partition_date :: nat
  ga_session_id :: string
  ga_user_id :: string
  ga_session_start_time :: int
  ga_device_category :: string
  ga_browser :: string
  ga_operating_system :: string
  ga_geo :: geo
  ga_traffic_source :: traffic_source
  ga_totals :: totals
  ga_hits :: "hit list"

text \<open>
  The loop \<^verbatim>\<open>for i in range(num_additional_hits)\<close>, over the list of its indices; it
  carries the hits so far, the time of the last hit and the random sources.
\<close>

fun additional_hits :: "nat list \<Rightarrow> hit list \<Rightarrow> int \<Rightarrow> rng \<Rightarrow> hit list \<times> int \<times> rng" where
  "additional_hits [] hits last_hit_time r = (hits, last_hit_time, r)"
| "additional_hits (i # ns) hits last_hit_time r =
     (let (time_delta, r1) = randint 30 120 r;
          hit_time = last_hit_time + time_delta;
          (page_path, r2) = choice (map fst PAGE_MAP) r1;
          page_title = page_title_of page_path
      in additional_hits ns
           (hits @ [\<lparr> hit_number = i + 2, hit_time = hit_time, hit_type = ''PAGE'',
                       page = Some \<lparr> page_path = page_path, page_title = page_title,
                                     hostname = HOSPITAL_HOSTNAME \<rparr>,
                       event_info = None \<rparr>])
           hit_time r2)"

text \<open>
  The user journey of one session: the hits, the time on site and the bounce flag,
  from the first page view to the optional conversion event.
\<close>

definition user_journey :: "int \<Rightarrow> rng \<Rightarrow> (hit list \<times> int \<times> bool) \<times> rng" where
  "user_journey session_start_time r =
     (let (page_path, r1) = choice (map fst PAGE_MAP) r;
          page_title = page_title_of page_path;
          hits = [\<lparr> hit_number = 1, hit_time = session_start_time, hit_type = ''PAGE'',
                     page = Some \<lparr> page_path = page_path, page_title = page_title,
                                   hostname = HOSPITAL_HOSTNAME \<rparr>,
                     event_info = None \<rparr>];
          (bounce_roll, r2) = random_random r1;
          is_bounce = (bounce_roll < 0.65)
      in if \<not> is_bounce then
           (let (num_additional_hits, r3) = randint 1 4 r2;
                (hits1, last_hit_time, r4) =
                   additional_hits [0..<nat num_additional_hits] hits session_start_time r3;
                (conversion_roll, r5) = random_random r4
            in if conversion_roll < 0.2 then
                 (let (time_delta, r6) = randint 10 30 r5;
                      hit_time = last_hit_time + time_delta;
                      hits2 = hits1 @
                        [\<lparr> hit_number = length hits1 + 1, hit_time = hit_time,
                            hit_type = ''EVENT'', page = None,
                            event_info = Some \<lparr> event_category = ''Conversion'',
                                                 event_action = ''Request Appointment'',
                                                 event_label = ''Ortho Page'' \<rparr> \<rparr>]
                  in ((hits2, hit_time - session_start_time, is_bounce), r6))
               else ((hits1, last_hit_time - session_start_time, is_bounce), r5))
         else
           (let (time_on_site, r3) = randint 5 45 r2
            in ((hits, time_on_site, is_bounce), r3)))"

definition ga_session :: "nat \<Rightarrow> rng \<Rightarrow> ga_row \<times> rng" where
  "ga_session day r =
     (let (seconds, r1) = randint 0 86399 r;
          session_start_time = int day * 86400 + seconds;
          (user_id, r2) = fake_uuid4 r1;
          (session_id, r3) = uuid_uuid4 r2;
          (traffic_source_roll, r4) = random_random r3;
          ((source, medium), r5) =
             (if traffic_source_roll < 0.6 then ((''google'', ''organic''), r4)
              else if traffic_source_roll < 0.8 then ((''(direct)'', ''(none)''), r4)
              else if traffic_source_roll < 0.9 then
                (let (referrer, r') = choice [''youtube.com'', ''facebook.com''] r4
                 in ((referrer, ''referral''), r'))
              else ((''google'', ''cpc''), r4));
          ((hits, time_on_site, is_bounce), r6) = user_journey session_start_time r5;
          (device_category, r7) = choice [''mobile'', ''desktop'', ''tablet''] r6;
          (browser, r8) = choice [''Chrome'', ''Safari'', ''Firefox'', ''Edge''] r7;
          (operating_system, r9) = choice [''Android'', ''iOS'', ''Windows'', ''MacOS''] r8;
          (city, r10) = choice [PRIMARY_CITY, ''Coimbatore'', ''Madurai''] r9
      in (\<lparr> ga_partition_date = day,
             ga_session_id = session_id,
             ga_user_id = user_id,
             ga_session_start_time = session_start_time,
             ga_device_category = device_category,
             ga_browser = browser,
             ga_operating_system = operating_system,
             ga_geo = \<lparr> geo_country = PRIMARY_COUNTRY_NAME, geo_region = PRIMARY_REGION,
                        geo_city = city \<rparr>,
             ga_traffic_source = \<lparr> source = source, medium = medium,
                                   campaign = ''(not set)'' \<rparr>,
             ga_totals = \<lparr> pageviews = length (filter (\<lambda>h. hit_type h = ''PAGE'') hits),
                           time_on_site_seconds = time_on_site,
                           bounces = (if is_bounce then 1 else 0) \<rparr>,
             ga_hits = hits \<rparr>, r10))"

definition ga_sessions_data :: "nat \<Rightarrow> rng \<Rightarrow> ga_row list \<times> rng" where
  "ga_sessions_data num_days =
     for_each (\<lambda>day r.
       let (num_sessions_today, r1) = randint 200 1000 r
       in for_each (\<lambda>_ r. let (row, r') = ga_session day r in ([row], r'))
            [0..<nat num_sessions_today] r1)
       [0..<num_days]"

section \<open>The whole script\<close>

text \<open>
  The three passes run one after the other on the same random sources; the catalogs and
  the number of days are the configuration of the run.
\<close>

record tables =
  gsc_table :: "gsc_row list"
  yt_table :: "yt_row list"
  ga_table :: "ga_row list"

definition db_main ::
    "nat \<Rightarrow> (string \<times> string) list \<Rightarrow> (string \<times> video_meta) list \<Rightarrow> rng \<Rightarrow> tables" where
  "db_main num_days queries videos r =
     (let (gsc, r1) = gsc_data num_days queries r;
          (yt, r2) = yt_data num_days videos r1;
          (ga, r3) = ga_sessions_data num_days r2
      in \<lparr> gsc_table = gsc, yt_table = yt, ga_table = ga \<rparr>)"

section \<open>Query execution (agent.py)\<close>

text \<open>
  The BigQuery client is outside the repository: \<open>bq_client\<close> is \<open>None\<close> when its
  construction failed at import time, and otherwise the behaviour of
  \<^verbatim>\<open>bq_client.query(query).result()\<close> followed by the conversion of the rows, which
  either raises an exception of class \<open>Exception\<close> with a message or yields the rows.
\<close>

type_synonym bq_row = "(string \<times> string) list"

type_synonym bq_client = "string \<Rightarrow> string + bq_row list"

datatype query_result = Rows "bq_row list" | ErrorDict string

text \<open>\<open>Inl\<close> is an exception that leaves the function, \<open>Inr\<close> its return value.\<close>

definition execute_bq_query :: "bq_client option \<Rightarrow> string \<Rightarrow> py_error + query_result" where
  "execute_bq_query bq_client query =
     (case bq_client of
        None \<Rightarrow> Inl (Exception ''BigQuery client is not available.'')
      | Some client \<Rightarrow>
          (case client query of
             Inr results \<Rightarrow> Inr (Rows results)
           | Inl e \<Rightarrow> Inr (ErrorDict e)))"

section \<open>Projections and sample inputs\<close>

text \<open>The hits and the bounce flag that a user journey returns.\<close>

definition journey_hits :: "int \<Rightarrow> rng \<Rightarrow> hit list" where
  "journey_hits t r = fst (fst (user_journey t r))"

definition journey_bounce :: "int \<Rightarrow> rng \<Rightarrow> bool" where
  "journey_bounce t r = snd (snd (fst (user_journey t r)))"

text \<open>
  Random sources for the sample runs. With \<open>rng_conv\<close> the first session of the first
  day does not bounce, views two more pages and converts; with \<open>rng_zero\<close> every draw is
  the least of its range, so every session bounces.
\<close>

definition rng_zero :: rng where
  "rng_zero =
     \<lparr> py_random = sconst 0, np_random = sconst 0,
       faker_random = sconst ''user'', os_random = sconst ''session'' \<rparr>"

definition rng_conv :: rng where
  "rng_conv =
     \<lparr> py_random = [0, 0, 0, 0, 6000000000000000, 1, 5, 1, 0, 2, 0, 3] @- sconst 0,
       np_random = sconst 0,
       faker_random = sconst ''user'',
       os_random = sconst ''session'' \<rparr>"

definition ga_example_row :: ga_row where
  "ga_example_row = fst (ga_session 0 (snd (randint 200 1000 rng_conv)))"

definition ga_bounce_row :: ga_row where
  "ga_bounce_row = fst (ga_session 0 (snd (randint 200 1000 rng_zero)))"

text \<open>
  For the GSC pass: with \<open>rng_gsc\<close> the first row has 55 impressions, a click-through
  rate of 0.095 and an average position of 8.92; with \<open>rng_hot\<close> every deviate is the
  bound itself, and the click-through rate of the first row is 0.440219.
\<close>

definition rng_gsc :: rng where
  "rng_gsc =
     \<lparr> py_random = sconst 5, np_random = 0.5 ## 0.23 ## sconst 0,
       faker_random = sconst ''user'', os_random = sconst ''session'' \<rparr>"

definition rng_hot :: rng where
  "rng_hot =
     \<lparr> py_random = sconst 0, np_random = sconst 12.0073,
       faker_random = sconst ''user'', os_random = sconst ''session'' \<rparr>"

definition gsc_first_row :: "rng \<Rightarrow> gsc_row" where
  "gsc_first_row r =
     fst (gsc_row_of 0 (''knee pain'', ''/blog/knee-pain-causes-and-treatments/'') ''MOBILE'' r)"

definition yt_example_row :: yt_row where
  "yt_example_row = fst (yt_row_of 0 (hd YT_VIDEOS) rng_zero)"

section \<open>Loops and draws\<close>

lemma for_each_length_const:
  assumes "\<And>x s. length (fst (f x s)) = k"
  shows "length (fst (for_each f xs s)) = k * length xs"
proof (induction xs arbitrary: s)
  case Nil
  show ?case by simp
next
  case (Cons x xs)
  have "length (fst (f x s)) = k" by (rule assms)
  moreover have "length (fst (for_each f xs (snd (f x s)))) = k * length xs" by (rule Cons.IH)
  ultimately show ?case by (simp add: split_beta Let_def)
qed

lemma for_each_length_bounds:
  assumes "\<And>x s. lo \<le> length (fst (f x s)) \<and> length (fst (f x s)) \<le> hi"
  shows "lo * length xs \<le> length (fst (for_each f xs s)) \<and>
         length (fst (for_each f xs s)) \<le> hi * length xs"
proof (induction xs arbitrary: s)
  case Nil
  show ?case by simp
next
  case (Cons x xs)
  from assms [of x s] Cons.IH [of "snd (f x s)"]
  show ?case by (simp add: split_beta Let_def)
qed

lemma for_each_mem:
  assumes "y \<in> set (fst (for_each f xs s))"
  shows "\<exists>x\<in>set xs. \<exists>s'. y \<in> set (fst (f x s'))"
  using assms
proof (induction xs arbitrary: s)
  case Nil
  then show ?case by simp
next
  case (Cons x xs)
  then show ?case by (auto simp: split_beta Let_def)
qed

lemma for_each_singleton_length:
  "length (fst (for_each (\<lambda>x r. ([fst (g x r)], snd (g x r))) xs s)) = length xs"
  using for_each_length_const [of "\<lambda>x r. ([fst (g x r)], snd (g x r))" 1 xs s]
  by simp

lemma for_each_singleton_mem:
  assumes "y \<in> set (fst (for_each (\<lambda>x r. ([fst (g x r)], snd (g x r))) xs s))"
  shows "\<exists>x\<in>set xs. \<exists>s'. y = fst (g x s')"
  using for_each_mem [OF assms] by auto

lemma randint_bounds:
  assumes "a \<le> b"
  shows "a \<le> fst (randint a b r) \<and> fst (randint a b r) \<le> b"
proof -
  have pos: "0 < nat (b - a + 1)" using assms by simp
  have "shd (py_random r) mod nat (b - a + 1) < nat (b - a + 1)"
    using pos by (rule mod_less_divisor)
  then have "int (shd (py_random r) mod nat (b - a + 1)) < b - a + 1"
    using assms by linarith
  then show ?thesis by (simp add: randint_def)
qed

lemma additional_hits_numbers:
  "map hit_number (fst (additional_hits ns hits t r)) =
     map hit_number hits @ map (\<lambda>i. i + 2) ns"
  by (induction ns arbitrary: hits t r) (simp_all add: split_beta Let_def)

lemma additional_hits_length:
  "length (fst (additional_hits ns hits t r)) = length hits + length ns"
  by (induction ns arbitrary: hits t r) (simp_all add: split_beta Let_def)

lemma additional_hits_times:
  assumes "sorted (map hit_time hits)" and "\<forall>h\<in>set hits. hit_time h \<le> t"
  shows "sorted (map hit_time (fst (additional_hits ns hits t r))) \<and>
         (\<forall>h\<in>set (fst (additional_hits ns hits t r)).
            hit_time h \<le> fst (snd (additional_hits ns hits t r)))"
  using assms
proof (induction ns arbitrary: hits t r)
  case Nil
  then show ?case by simp
next
  case (Cons i ns)
  define d where "d = fst (randint 30 120 r)"
  have d: "30 \<le> d" unfolding d_def using randint_bounds [of 30 120 r] by simp
  define r2 where "r2 = snd (choice (map fst PAGE_MAP) (snd (randint 30 120 r)))"
  define h where "h = \<lparr> hit_number = i + 2, hit_time = t + d, hit_type = ''PAGE'',
       page = Some \<lparr> page_path = fst (choice (map fst PAGE_MAP) (snd (randint 30 120 r))),
                     page_title = page_title_of (fst (choice (map fst PAGE_MAP) (snd (randint 30 120 r)))),
                     hostname = HOSPITAL_HOSTNAME \<rparr>,
       event_info = None \<rparr>"
  have step: "additional_hits (i # ns) hits t r = additional_hits ns (hits @ [h]) (t + d) r2"
    by (simp add: split_beta Let_def d_def r2_def h_def)
  have s1: "sorted (map hit_time (hits @ [h]))"
    using Cons.prems d by (auto simp: sorted_append h_def)
  have s2: "\<forall>x\<in>set (hits @ [h]). hit_time x \<le> t + d"
    using Cons.prems d by (auto simp: h_def)
  show ?case unfolding step by (rule Cons.IH [OF s1 s2])
qed


lemma randint_1_4_pos: "0 < fst (randint 1 4 r)"
  using randint_bounds [of 1 4 r] by simp

lemma user_journey_bounce_length:
  "journey_bounce t r \<longleftrightarrow> length (journey_hits t r) = 1"
  by (simp add: journey_bounce_def journey_hits_def user_journey_def split_beta Let_def
                additional_hits_length randint_1_4_pos not_le)

lemma user_journey_nonbounce_length:
  "journey_bounce t r \<or> 2 \<le> length (journey_hits t r)"
proof -
  have "Suc 0 \<le> nat (fst (randint 1 4 r'))" for r'
    using randint_1_4_pos [of r'] by simp
  then show ?thesis
    by (simp add: journey_bounce_def journey_hits_def user_journey_def split_beta Let_def
                  additional_hits_length)
qed

lemma numbers_pages: "Suc 0 # map (\<lambda>i. Suc (Suc i)) [0..<n] = [Suc 0..<Suc (Suc n)]"
  by (induction n) simp_all

lemma user_journey_numbers:
  "map hit_number (journey_hits t r) = [1..<Suc (length (journey_hits t r))]"
  by (simp add: journey_hits_def user_journey_def split_beta Let_def
                additional_hits_length additional_hits_numbers numbers_pages del: upt_Suc)
   (simp add: numbers_pages [symmetric])


lemma additional_hits_times_single:
  "hit_time h = t \<Longrightarrow>
     sorted (map hit_time (fst (additional_hits ns [h] t r))) \<and>
     (\<forall>x\<in>set (fst (additional_hits ns [h] t r)).
        hit_time x \<le> fst (snd (additional_hits ns [h] t r)))"
  by (rule additional_hits_times) simp_all

lemma randint_10_30_nonneg: "0 \<le> fst (randint 10 30 r)"
  using randint_bounds [of 10 30 r] by simp

lemma user_journey_times: "sorted (map hit_time (journey_hits t r))"
proof -
  have le: "x \<le> y \<Longrightarrow> x \<le> y + fst (randint 10 30 r')" for x y :: int and r'
    using randint_10_30_nonneg [of r'] by simp
  show ?thesis
    by (simp add: journey_hits_def user_journey_def split_beta Let_def sorted_append
                  additional_hits_times_single le)
qed

lemma ga_session_journey:
  "\<exists>t r'. ga_hits (fst (ga_session day r)) = journey_hits t r' \<and>
          bounces (ga_totals (fst (ga_session day r))) = (if journey_bounce t r' then 1 else 0)"
  unfolding ga_session_def journey_hits_def journey_bounce_def
  by (simp add: split_beta Let_def) blast

lemma ga_session_pageviews:
  "pageviews (ga_totals (fst (ga_session day r))) =
     length (filter (\<lambda>h. hit_type h = ''PAGE'') (ga_hits (fst (ga_session day r))))"
  by (simp add: ga_session_def split_beta Let_def)

lemma ga_sessions_data_mem:
  assumes "row \<in> set (fst (ga_sessions_data n r))"
  shows "\<exists>day r'. row = fst (ga_session day r')"
proof -
  from for_each_mem [OF assms [unfolded ga_sessions_data_def]]
  obtain day s where "row \<in> set (fst (for_each (\<lambda>_ r. ([fst (ga_session day r)], snd (ga_session day r)))
            [0..<nat (fst (randint 200 1000 s))] (snd (randint 200 1000 s))))"
    by (auto simp: split_beta)
  from for_each_singleton_mem [OF this] show ?thesis by blast
qed

lemma ga_sessions_data_first:
  "fst (ga_session 0 (snd (randint 200 1000 r))) \<in> set (fst (ga_sessions_data (Suc n) r))"
proof -
  have "200 \<le> fst (randint 200 1000 r)" using randint_bounds [of 200 1000 r] by simp
  then have "0 < nat (fst (randint 200 1000 r))" by simp
  then have inner: "[0..<nat (fst (randint 200 1000 r))] = 0 # [1..<nat (fst (randint 200 1000 r))]"
    by (simp add: upt_conv_Cons)
  have outer: "[0..<Suc n] = 0 # [1..<Suc n]" by (simp add: upt_conv_Cons)
  show ?thesis
    unfolding ga_sessions_data_def outer
    by (simp add: split_beta Let_def inner del: upt_Suc)
qed

lemma ga_sessions_data_length:
  "n * 200 \<le> length (fst (ga_sessions_data n r)) \<and>
   length (fst (ga_sessions_data n r)) \<le> n * 1000"
proof -
  have day: "200 \<le> length (fst ((\<lambda>day r.
       let (num_sessions_today, r1) = randint 200 1000 r
       in for_each (\<lambda>_ r. let (row, r') = ga_session day r in ([row], r'))
            [0..<nat num_sessions_today] r1) x s)) \<and>
     length (fst ((\<lambda>day r.
       let (num_sessions_today, r1) = randint 200 1000 r
       in for_each (\<lambda>_ r. let (row, r') = ga_session day r in ([row], r'))
            [0..<nat num_sessions_today] r1) x s)) \<le> 1000" for x s
    using randint_bounds [of 200 1000 s]
    by (simp add: split_beta for_each_singleton_length) arith
  from for_each_length_bounds [of 200 _ 1000 "[0..<n]" r, OF day]
  show ?thesis unfolding ga_sessions_data_def by (simp add: mult.commute)
qed

section \<open>The tables of a run\<close>

lemma for_each_map_keys:
  assumes "\<And>x s. map k (fst (f x s)) = g x"
  shows "map k (fst (for_each f xs s)) = concat (map g xs)"
proof (induction xs arbitrary: s)
  case Nil
  show ?case by simp
next
  case (Cons x xs)
  from assms [of x s] Cons.IH [of "snd (f x s)"]
  show ?case by (simp add: split_beta Let_def)
qed

lemma gsc_row_of_key:
  "gsc_partition_date (fst (gsc_row_of day qp device r)) = day \<and>
   gsc_query (fst (gsc_row_of day qp device r)) = fst qp \<and>
   gsc_device (fst (gsc_row_of day qp device r)) = device"
  by (simp add: gsc_row_of_def split_beta Let_def)

lemma gsc_data_keys:
  "map (\<lambda>row. (gsc_partition_date row, gsc_query row, gsc_device row))
       (fst (gsc_data num_days queries r)) =
   concat (map (\<lambda>day. concat (map (\<lambda>qp. [(day, fst qp, ''MOBILE''), (day, fst qp, ''DESKTOP'')])
                                     queries))
               [0..<num_days])"
  unfolding gsc_data_def
  by (intro for_each_map_keys) (simp add: split_beta gsc_row_of_key)

lemma length_concat_const:
  assumes "\<And>x. length (g x) = k"
  shows "length (concat (map g xs)) = k * length xs"
  by (induction xs) (simp_all add: assms)

lemma gsc_data_length:
  "length (fst (gsc_data num_days queries r)) = num_days * length queries * 2"
proof -
  have "length (fst (gsc_data num_days queries r)) =
        length (map (\<lambda>row. (gsc_partition_date row, gsc_query row, gsc_device row))
                    (fst (gsc_data num_days queries r)))"
    by simp
  also have "\<dots> = num_days * length queries * 2"
    unfolding gsc_data_keys
    by (simp add: length_concat_const [where k = "2 * length queries"]
                  length_concat_const [where k = 2])
  finally show ?thesis .
qed

lemma gsc_data_mem:
  assumes "row \<in> set (fst (gsc_data num_days queries r))"
  shows "\<exists>day qp device r'. row = fst (gsc_row_of day qp device r')"
proof -
  from for_each_mem [OF assms [unfolded gsc_data_def]]
  obtain day s where "row \<in> set (fst (for_each (\<lambda>qp.
         for_each (\<lambda>device r. let (row, r') = gsc_row_of day qp device r in ([row], r'))
           [''MOBILE'', ''DESKTOP'']) queries s))"
    by blast
  from for_each_mem [OF this]
  obtain qp s' where "row \<in> set (fst (for_each
         (\<lambda>device r. ([fst (gsc_row_of day qp device r)], snd (gsc_row_of day qp device r)))
           [''MOBILE'', ''DESKTOP''] s'))"
    by (auto simp: split_beta)
  from for_each_singleton_mem [OF this] show ?thesis by blast
qed

lemma gsc_data_first:
  "fst (gsc_row_of 0 qp ''MOBILE'' r) \<in> set (fst (gsc_data (Suc n) (qp # queries) r))"
proof -
  have outer: "[0..<Suc n] = 0 # [1..<Suc n]" by (simp add: upt_conv_Cons)
  show ?thesis
    unfolding gsc_data_def outer
    by (simp add: split_beta Let_def del: upt_Suc)
qed

lemma yt_row_of_key:
  "yt_partition_date (fst (yt_row_of day video r)) = day \<and>
   yt_external_video_id (fst (yt_row_of day video r)) = fst video"
  by (simp add: yt_row_of_def split_beta Let_def)

lemma yt_data_keys:
  "map (\<lambda>row. (yt_partition_date row, yt_external_video_id row))
       (fst (yt_data num_days videos r)) =
   concat (map (\<lambda>day. map (\<lambda>video. (day, fst video)) videos) [0..<num_days])"
  unfolding yt_data_def
proof (intro for_each_map_keys)
  fix day s
  have "map (\<lambda>row. (yt_partition_date row, yt_external_video_id row))
          (fst (for_each (\<lambda>video r. let (row, r') = yt_row_of day video r in ([row], r'))
                 videos s)) =
        concat (map (\<lambda>video. [(day, fst video)]) videos)"
    by (intro for_each_map_keys) (simp add: split_beta yt_row_of_key)
  also have "\<dots> = map (\<lambda>video. (day, fst video)) videos"
    by (induction videos) simp_all
  finally show "map (\<lambda>row. (yt_partition_date row, yt_external_video_id row))
          (fst (for_each (\<lambda>video r. let (row, r') = yt_row_of day video r in ([row], r'))
                 videos s)) = map (\<lambda>video. (day, fst video)) videos" .
qed

lemma yt_data_length:
  "length (fst (yt_data num_days videos r)) = num_days * length videos"
proof -
  have "length (fst (yt_data num_days videos r)) =
        length (map (\<lambda>row. (yt_partition_date row, yt_external_video_id row))
                    (fst (yt_data num_days videos r)))"
    by simp
  also have "\<dots> = num_days * length videos"
    unfolding yt_data_keys
    by (simp add: length_concat_const [where k = "length videos"])
  finally show ?thesis .
qed

lemma yt_data_mem:
  assumes "row \<in> set (fst (yt_data num_days videos r))"
  shows "\<exists>day video r'. video \<in> set videos \<and> row = fst (yt_row_of day video r')"
proof -
  from for_each_mem [OF assms [unfolded yt_data_def]]
  obtain day s where "row \<in> set (fst (for_each
         (\<lambda>video r. ([fst (yt_row_of day video r)], snd (yt_row_of day video r))) videos s))"
    by (auto simp: split_beta)
  from for_each_singleton_mem [OF this] show ?thesis by blast
qed

lemma yt_data_first:
  "fst (yt_row_of 0 video r) \<in> set (fst (yt_data (Suc n) (video # videos) r))"
proof -
  have outer: "[0..<Suc n] = 0 # [1..<Suc n]" by (simp add: upt_conv_Cons)
  show ?thesis
    unfolding yt_data_def outer
    by (simp add: split_beta Let_def del: upt_Suc)
qed

lemma db_main_tables:
  "gsc_table (db_main n Q V r) = fst (gsc_data n Q r)"
  "yt_table (db_main n Q V r) = fst (yt_data n V (snd (gsc_data n Q r)))"
  "ga_table (db_main n Q V r) =
     fst (ga_sessions_data n (snd (yt_data n V (snd (gsc_data n Q r)))))"
  by (simp_all add: db_main_def split_beta)

section \<open>The sample sessions\<close>

lemma PAGE_MAP_keys:
  "map fst PAGE_MAP =
     [''/'',
      ''/chennai/centres-of-excellence/orthopedics/'',
      ''/blog/knee-pain-causes-and-treatments/'',
      ''/doctors/chennai/dr-aravind-kumar'',
      ''/chennai/patients/appointments'',
      ''/chennai/centres-of-excellence/cardiology/'',
      ''/blog/understanding-heart-attack-symptoms/'',
      ''/chennai/centres-of-excellence/maternity/packages'']"
  by (simp add: PAGE_MAP_def)

lemma upt_0_2: "[0..<2] = [0, 1]"
  by (simp add: upt_rec numeral_2_eq_2)

lemmas run_session =
  ga_session_def user_journey_def randint_def random_random_def choice_def
  fake_uuid4_def uuid_uuid4_def PAGE_MAP_keys upt_0_2 Let_def

lemma ga_example_row_mem: "ga_example_row \<in> set (fst (ga_sessions_data 1 rng_conv))"
  unfolding ga_example_row_def using ga_sessions_data_first [of rng_conv 0] by simp

lemma ga_bounce_row_mem: "ga_bounce_row \<in> set (fst (ga_sessions_data 1 rng_zero))"
  unfolding ga_bounce_row_def using ga_sessions_data_first [of rng_zero 0] by simp

lemma ga_example_hits:
  "map (\<lambda>h. (hit_number h, hit_time h, hit_type h)) (ga_hits ga_example_row) =
     [(1, 0, ''PAGE''), (2, 35, ''PAGE''), (3, 65, ''PAGE''), (4, 78, ''EVENT'')]"
  by (simp add: ga_example_row_def rng_conv_def run_session)

lemma ga_example_totals:
  "ga_totals ga_example_row = \<lparr> pageviews = 3, time_on_site_seconds = 78, bounces = 0 \<rparr>"
  by (simp add: ga_example_row_def rng_conv_def run_session)

lemma ga_bounce_hits:
  "map (\<lambda>h. (hit_number h, hit_time h, hit_type h)) (ga_hits ga_bounce_row) =
     [(1, 0, ''PAGE'')]"
  by (simp add: ga_bounce_row_def rng_zero_def run_session)

lemma ga_bounce_totals:
  "ga_totals ga_bounce_row = \<lparr> pageviews = 1, time_on_site_seconds = 5, bounces = 1 \<rparr>"
  by (simp add: ga_bounce_row_def rng_zero_def run_session)

section \<open>The sample GSC rows\<close>

lemma max_py_int: "max 0 (py_int x) = max 0 \<lfloor>x\<rfloor>"
proof (cases "0 \<le> x")
  case True
  then show ?thesis by (simp add: py_int_def)
next
  case False
  then have "\<lceil>x\<rceil> \<le> 0" and "\<lfloor>x\<rfloor> \<le> 0" by (simp_all add: ceiling_le_zero) 
  with False show ?thesis by (simp add: py_int_def)
qed

lemma gsc_row_of_fields:
  "gsc_query (fst (gsc_row_of day (q, p) device r)) = q"
  "gsc_impressions (fst (gsc_row_of day (q, p) device r)) = fst (draw_impressions q r)"
  "gsc_clicks (fst (gsc_row_of day (q, p) device r)) =
     max 0 (py_int (real_of_int (fst (draw_impressions q r)) *
                    fst (draw_ctr q (snd (draw_impressions q r)))))"
  "gsc_sum_position (fst (gsc_row_of day (q, p) device r)) =
     py_int (fst (draw_avg_position q (snd (draw_ctr q (snd (draw_impressions q r))))) *
             real_of_int (fst (draw_impressions q r)))"
  by (simp_all add: gsc_row_of_def split_beta Let_def)

lemma standard_normal_bounds:
  "- deviate_bound \<le> fst (standard_normal r) \<and> fst (standard_normal r) \<le> deviate_bound"
  by (simp add: standard_normal_def deviate_bound_def)

lemma draw_ctr_le_one: "fst (draw_ctr q r) \<le> 1"
proof -
  have d: "fst (standard_normal r) \<le> 12.0073"
    using standard_normal_bounds [of r] by (simp add: deviate_bound_def)
  then have "0.005 + 0.001 * fst (standard_normal r) \<le> 1"
    and "0.08 + 0.03 * fst (standard_normal r) \<le> 1"
    by simp_all
  then show ?thesis by (simp add: draw_ctr_def normal_def split_beta)
qed

lemma draw_impressions_nonneg: "0 \<le> fst (draw_impressions q r)"
  using randint_bounds [of 50 8000 r] randint_bounds [of 500 10000 r]
  by (simp add: draw_impressions_def)

lemma gsc_row_clicks_le_impressions:
  "gsc_clicks (fst (gsc_row_of day qp device r)) \<le>
   gsc_impressions (fst (gsc_row_of day qp device r))"
proof -
  define impressions where "impressions = fst (draw_impressions (fst qp) r)"
  define ctr where "ctr = fst (draw_ctr (fst qp) (snd (draw_impressions (fst qp) r)))"
  have i: "0 \<le> impressions" unfolding impressions_def by (rule draw_impressions_nonneg)
  have c: "ctr \<le> 1" unfolding ctr_def by (rule draw_ctr_le_one)
  from i c have "real_of_int impressions * ctr \<le> real_of_int impressions * 1"
    by (intro mult_left_mono) simp_all
  then have "\<lfloor>real_of_int impressions * ctr\<rfloor> \<le> impressions"
    by (simp add: floor_le_iff)
  with i have "max 0 \<lfloor>real_of_int impressions * ctr\<rfloor> \<le> impressions" by simp
  then have "max 0 (py_int (real_of_int impressions * ctr)) \<le> impressions"
    by (simp only: max_py_int)
  then show ?thesis
    using gsc_row_of_fields(2,3) [of day "fst qp" "snd qp" device r]
    by (simp add: impressions_def ctr_def)
qed

lemma knee_pain_not_best: "\<not> sublist ''best'' ''knee pain''"
  by code_simp

lemma gsc_first_row_mem: "gsc_first_row r \<in> set (fst (gsc_data 1 GSC_QUERIES r))"
proof -
  have "GSC_QUERIES = (''knee pain'', ''/blog/knee-pain-causes-and-treatments/'') # tl GSC_QUERIES"
    by (simp add: GSC_QUERIES_def)
  then show ?thesis
    unfolding gsc_first_row_def
    using gsc_data_first [of "(''knee pain'', ''/blog/knee-pain-causes-and-treatments/'')" r 0
                             "tl GSC_QUERIES"]
    by simp
qed

lemmas run_gsc_row =
  gsc_first_row_def gsc_row_of_def draw_impressions_def draw_ctr_def draw_avg_position_def
  randint_def normal_def standard_normal_def deviate_bound_def py_int_def
  knee_pain_not_best Let_def

lemma gsc_first_row_gsc:
  "gsc_impressions (gsc_first_row rng_gsc) = 55"
  "gsc_clicks (gsc_first_row rng_gsc) = 5"
  "gsc_sum_position (gsc_first_row rng_gsc) = 490"
  by (simp_all add: rng_gsc_def run_gsc_row)

lemma gsc_first_row_hot:
  "gsc_impressions (gsc_first_row rng_hot) = 50"
  "gsc_clicks (gsc_first_row rng_hot) = 22"
  by (simp_all add: rng_hot_def run_gsc_row)

lemma gsc_first_row_avg_position:
  "fst (normal 8 4 (snd (draw_ctr ''knee pain'' (snd (draw_impressions ''knee pain'' rng_gsc)))))
     = 8.92"
  by (simp add: rng_gsc_def draw_impressions_def draw_ctr_def randint_def normal_def
                standard_normal_def deviate_bound_def
                knee_pain_not_best)

section \<open>The sample YouTube row\<close>

lemma yt_row_of_times:
  "yt_watch_time_msec (fst (yt_row_of day video r)) =
     fst (randint 50 1500 r) * avg_view_sec (snd video) * 1000"
  "yt_potential_watch_time_msec (fst (yt_row_of day video r)) =
     fst (randint 50 1500 r) * duration_sec (snd video) * 1000"
  by (simp_all add: yt_row_of_def split_beta Let_def)

lemma yt_example_row_mem: "yt_example_row \<in> set (fst (yt_data 1 YT_VIDEOS rng_zero))"
proof -
  have "YT_VIDEOS = hd YT_VIDEOS # tl YT_VIDEOS" by (simp add: YT_VIDEOS_def)
  then show ?thesis
    unfolding yt_example_row_def
    using yt_data_first [of "hd YT_VIDEOS" rng_zero 0 "tl YT_VIDEOS"] by simp
qed

lemma yt_example_row_times:
  "yt_views yt_example_row = 50"
  "yt_watch_time_msec yt_example_row = 1500000"
  "yt_potential_watch_time_msec yt_example_row = 9000000"
  by (simp_all add: yt_example_row_def yt_row_of_def YT_VIDEOS_def rng_zero_def randint_def
        choice_def normal_def standard_normal_def deviate_bound_def Let_def)

section \<open>The content API: claims\<close>

text \<open>
  C10. A POST whose body is the empty JSON object is answered with the 400
  "Missing JSON payload" error, and the four stored values stay as they were: the empty
  object is not a successful update that changes nothing.
\<close>

theorem update_metadata_empty_object:
  "update_metadata md (JObj []) =
     (md, Inr \<lparr> status_code = 400,
                body = [(''status'', ''error''), (''message'', ''Missing JSON payload'')] \<rparr>)"
  by (simp add: update_metadata_def)

text \<open>
  C9. For a request whose body is a JSON object, each of the four fields \<open>title\<close>,
  \<open>description\<close>, \<open>page_h1\<close> and \<open>page_paragraph\<close> that the object carries replaces
  the stored value, and each field that it omits leaves the stored value as it was.
\<close>

theorem update_metadata_frame:
  "(\<forall>v. map_of kvs ''title'' = Some v \<longrightarrow>
        title (fst (update_metadata md (JObj kvs))) = v) \<and>
   (map_of kvs ''title'' = None \<longrightarrow>
        title (fst (update_metadata md (JObj kvs))) = title md) \<and>
   (\<forall>v. map_of kvs ''description'' = Some v \<longrightarrow>
        description (fst (update_metadata md (JObj kvs))) = v) \<and>
   (map_of kvs ''description'' = None \<longrightarrow>
        description (fst (update_metadata md (JObj kvs))) = description md) \<and>
   (\<forall>v. map_of kvs ''page_h1'' = Some v \<longrightarrow>
        page_h1 (fst (update_metadata md (JObj kvs))) = v) \<and>
   (map_of kvs ''page_h1'' = None \<longrightarrow>
        page_h1 (fst (update_metadata md (JObj kvs))) = page_h1 md) \<and>
   (\<forall>v. map_of kvs ''page_paragraph'' = Some v \<longrightarrow>
        page_paragraph (fst (update_metadata md (JObj kvs))) = v) \<and>
   (map_of kvs ''page_paragraph'' = None \<longrightarrow>
        page_paragraph (fst (update_metadata md (JObj kvs))) = page_paragraph md)"
proof (cases kvs)
  case Nil
  then show ?thesis by (simp add: update_metadata_def)
next
  case (Cons kv rest)
  then have "truthy (JObj kvs)" by simp
  then show ?thesis
    by (simp add: update_metadata_def dict_get_def Let_def)
qed

theorem update_metadata_frame_witness:
  "map_of [(''title'', JStr ''Knee Care | Apollo''), (''page_h1'', JStr ''Knee Care'')] ''title''
     = Some (JStr ''Knee Care | Apollo'') \<and>
   map_of [(''title'', JStr ''Knee Care | Apollo''), (''page_h1'', JStr ''Knee Care'')]
     ''description'' = None \<and>
   title (fst (update_metadata WEBSITE_METADATA
     (JObj [(''title'', JStr ''Knee Care | Apollo''), (''page_h1'', JStr ''Knee Care'')])))
     = JStr ''Knee Care | Apollo'' \<and>
   description (fst (update_metadata WEBSITE_METADATA
     (JObj [(''title'', JStr ''Knee Care | Apollo''), (''page_h1'', JStr ''Knee Care'')])))
     = JStr ''This is the default description.''"
proof -
  have p1: "map_of [(''title'', JStr ''Knee Care | Apollo''), (''page_h1'', JStr ''Knee Care'')]
      ''title'' = Some (JStr ''Knee Care | Apollo'')"
    by simp
  have p2: "map_of [(''title'', JStr ''Knee Care | Apollo''), (''page_h1'', JStr ''Knee Care'')]
      ''description'' = None"
    by simp
  note frame = update_metadata_frame
    [of "[(''title'', JStr ''Knee Care | Apollo''), (''page_h1'', JStr ''Knee Care'')]"
        WEBSITE_METADATA]
  from frame p1 have t: "title (fst (update_metadata WEBSITE_METADATA
     (JObj [(''title'', JStr ''Knee Care | Apollo''), (''page_h1'', JStr ''Knee Care'')])))
     = JStr ''Knee Care | Apollo''"
    by blast
  from frame p2 have "description (fst (update_metadata WEBSITE_METADATA
     (JObj [(''title'', JStr ''Knee Care | Apollo''), (''page_h1'', JStr ''Knee Care'')])))
     = description WEBSITE_METADATA"
    by blast
  then have d: "description (fst (update_metadata WEBSITE_METADATA
     (JObj [(''title'', JStr ''Knee Care | Apollo''), (''page_h1'', JStr ''Knee Care'')])))
     = JStr ''This is the default description.''"
    by (simp add: WEBSITE_METADATA_def)
  from p1 p2 t d show ?thesis by blast
qed

section \<open>Query execution: claims\<close>

text \<open>
  C8, as stated, fails: with no client the function raises instead of returning an
  error result.
\<close>

theorem execute_bq_query_unavailable_raises:
  "execute_bq_query None ''SELECT 1'' = Inl (Exception ''BigQuery client is not available.'')"
  by (simp add: execute_bq_query_def)

text \<open>
  C8, amended. With a client, the function returns either the rows or the error result
  \<open>{error: message}\<close> and never raises, whatever the client does with the query; with
  no client it raises the exception "BigQuery client is not available.".
\<close>

theorem execute_bq_query_contract:
  "((\<exists>rows. execute_bq_query (Some client) query = Inr (Rows rows)) \<or>
    (\<exists>message. execute_bq_query (Some client) query = Inr (ErrorDict message))) \<and>
   execute_bq_query None query = Inl (Exception ''BigQuery client is not available.'')"
  by (cases "client query") (simp_all add: execute_bq_query_def)

section \<open>The generator: claims\<close>

text \<open>
  C4. In a run over \<open>num_days\<close> days the GSC table has one row for each day, query and
  device in \<open>MOBILE\<close>, \<open>DESKTOP\<close>, in that order, hence \<open>num_days\<close> times the size of the
  query catalog times 2 rows; the YouTube table has \<open>num_days\<close> times the size of the
  video catalog rows; the GA table has between \<open>num_days * 200\<close> and \<open>num_days * 1000\<close>
  rows. With the configuration of the script that is 1620 rows, 270 rows and between
  18000 and 90000 rows.
\<close>

theorem table_sizes:
  "map (\<lambda>row. (gsc_partition_date row, gsc_query row, gsc_device row))
       (gsc_table (db_main num_days queries videos r)) =
     concat (map (\<lambda>day. concat (map (\<lambda>qp. [(day, fst qp, ''MOBILE''), (day, fst qp, ''DESKTOP'')])
                                       queries))
                 [0..<num_days]) \<and>
   length (gsc_table (db_main num_days queries videos r)) = num_days * length queries * 2 \<and>
   length (yt_table (db_main num_days queries videos r)) = num_days * length videos \<and>
   num_days * 200 \<le> length (ga_table (db_main num_days queries videos r)) \<and>
   length (ga_table (db_main num_days queries videos r)) \<le> num_days * 1000 \<and>
   length (gsc_table (db_main NUM_DAYS GSC_QUERIES YT_VIDEOS r)) = 1620 \<and>
   length (yt_table (db_main NUM_DAYS GSC_QUERIES YT_VIDEOS r)) = 270 \<and>
   18000 \<le> length (ga_table (db_main NUM_DAYS GSC_QUERIES YT_VIDEOS r)) \<and>
   length (ga_table (db_main NUM_DAYS GSC_QUERIES YT_VIDEOS r)) \<le> 90000"
proof -
  have ga: "n * 200 \<le> length (ga_table (db_main n Q V r)) \<and>
            length (ga_table (db_main n Q V r)) \<le> n * 1000" for n Q V
    unfolding db_main_tables by (rule ga_sessions_data_length)
  have q: "length GSC_QUERIES = 9" by (simp add: GSC_QUERIES_def)
  have v: "length YT_VIDEOS = 3" by (simp add: YT_VIDEOS_def)
  have ga90: "18000 \<le> length (ga_table (db_main NUM_DAYS GSC_QUERIES YT_VIDEOS r)) \<and>
     length (ga_table (db_main NUM_DAYS GSC_QUERIES YT_VIDEOS r)) \<le> 90000"
    using ga [of NUM_DAYS GSC_QUERIES YT_VIDEOS] by (simp add: NUM_DAYS_def)
  show ?thesis
    using ga [of num_days queries videos] ga90
    by (simp add: db_main_tables gsc_data_keys gsc_data_length yt_data_length q v NUM_DAYS_def)
qed

text \<open>
  C1. In every row of the GA table, whatever the random sources yield,
  \<open>totals.pageviews\<close> is the number of hits of type PAGE among the hits of the session.
\<close>

theorem ga_pageviews_count_page_hits:
  "\<forall>row \<in> set (fst (ga_sessions_data num_days r)).
     pageviews (ga_totals row) = length (filter (\<lambda>h. hit_type h = ''PAGE'') (ga_hits row))"
proof
  fix row
  assume "row \<in> set (fst (ga_sessions_data num_days r))"
  then obtain day r' where "row = fst (ga_session day r')"
    using ga_sessions_data_mem by blast
  then show "pageviews (ga_totals row) =
      length (filter (\<lambda>h. hit_type h = ''PAGE'') (ga_hits row))"
    by (simp add: ga_session_pageviews)
qed

theorem ga_pageviews_count_page_hits_witness:
  "ga_example_row \<in> set (fst (ga_sessions_data 1 rng_conv)) \<and>
   map hit_type (ga_hits ga_example_row) = [''PAGE'', ''PAGE'', ''PAGE'', ''EVENT''] \<and>
   length (filter (\<lambda>h. hit_type h = ''PAGE'') (ga_hits ga_example_row)) = 3 \<and>
   pageviews (ga_totals ga_example_row) = 3"
proof -
  have types: "map hit_type (ga_hits ga_example_row) = [''PAGE'', ''PAGE'', ''PAGE'', ''EVENT'']"
    using arg_cong [OF ga_example_hits, of "map (\<lambda>p. snd (snd p))"] by (simp add: comp_def)
  have views: "pageviews (ga_totals ga_example_row) = 3"
    by (simp add: ga_example_totals)
  from ga_pageviews_count_page_hits [of 1 rng_conv] ga_example_row_mem
  have "pageviews (ga_totals ga_example_row) =
      length (filter (\<lambda>h. hit_type h = ''PAGE'') (ga_hits ga_example_row))"
    by blast
  with views types ga_example_row_mem show ?thesis by simp
qed

text \<open>
  C2. In every row of the GA table, \<open>totals.bounces\<close> is 0 or 1, and it is 1 exactly
  when the session has one hit; no row has \<open>bounces = 0\<close> together with a single hit,
  since a session that does not bounce appends at least one hit after the first and so
  has at least two hits.
\<close>

theorem ga_bounce_iff_single_hit:
  "\<forall>row \<in> set (fst (ga_sessions_data num_days r)).
     (bounces (ga_totals row) = 1 \<longleftrightarrow> length (ga_hits row) = 1) \<and>
     \<not> (bounces (ga_totals row) = 0 \<and> length (ga_hits row) = 1) \<and>
     (bounces (ga_totals row) = 0 \<longrightarrow> 2 \<le> length (ga_hits row)) \<and>
     (bounces (ga_totals row) = 0 \<or> bounces (ga_totals row) = 1)"
proof
  fix row
  assume "row \<in> set (fst (ga_sessions_data num_days r))"
  then obtain day r' where row: "row = fst (ga_session day r')"
    using ga_sessions_data_mem by blast
  from ga_session_journey [of day r'] obtain t s where
    hits: "ga_hits row = journey_hits t s" and
    flag: "bounces (ga_totals row) = (if journey_bounce t s then 1 else 0)"
    unfolding row by blast
  show "(bounces (ga_totals row) = 1 \<longleftrightarrow> length (ga_hits row) = 1) \<and>
     \<not> (bounces (ga_totals row) = 0 \<and> length (ga_hits row) = 1) \<and>
     (bounces (ga_totals row) = 0 \<longrightarrow> 2 \<le> length (ga_hits row)) \<and>
     (bounces (ga_totals row) = 0 \<or> bounces (ga_totals row) = 1)"
  proof (cases "journey_bounce t s")
    case True
    with user_journey_bounce_length [of t s] hits flag show ?thesis by simp
  next
    case False
    with user_journey_nonbounce_length [of t s] hits flag show ?thesis by simp
  qed
qed

theorem ga_bounce_iff_single_hit_witness:
  "ga_bounce_row \<in> set (fst (ga_sessions_data 1 rng_zero)) \<and>
   bounces (ga_totals ga_bounce_row) = 1 \<and> length (ga_hits ga_bounce_row) = 1 \<and>
   ga_example_row \<in> set (fst (ga_sessions_data 1 rng_conv)) \<and>
   bounces (ga_totals ga_example_row) = 0 \<and> length (ga_hits ga_example_row) \<noteq> 1 \<and>
   2 \<le> length (ga_hits ga_example_row)"
proof -
  have b1: "bounces (ga_totals ga_bounce_row) = 1" by (simp add: ga_bounce_totals)
  have b0: "bounces (ga_totals ga_example_row) = 0" by (simp add: ga_example_totals)
  from ga_bounce_iff_single_hit [of 1 rng_zero] ga_bounce_row_mem b1
  have l1: "length (ga_hits ga_bounce_row) = 1" by blast
  from ga_bounce_iff_single_hit [of 1 rng_conv] ga_example_row_mem b0
  have l0: "length (ga_hits ga_example_row) \<noteq> 1" by blast
  from ga_bounce_iff_single_hit [of 1 rng_conv] ga_example_row_mem b0
  have l2: "2 \<le> length (ga_hits ga_example_row)" by blast
  from b1 b0 l1 l0 l2 ga_bounce_row_mem ga_example_row_mem show ?thesis by blast
qed

text \<open>
  C7. In every row of the GA table the hit numbers are 1, 2, ..., up to the number of
  hits, in this order, and the hit times never decrease along the sequence.
\<close>

theorem ga_hit_numbers_and_times:
  "\<forall>row \<in> set (fst (ga_sessions_data num_days r)).
     map hit_number (ga_hits row) = [1..<Suc (length (ga_hits row))] \<and>
     sorted (map hit_time (ga_hits row))"
proof
  fix row
  assume "row \<in> set (fst (ga_sessions_data num_days r))"
  then obtain day r' where row: "row = fst (ga_session day r')"
    using ga_sessions_data_mem by blast
  from ga_session_journey [of day r'] obtain t s where
    "ga_hits row = journey_hits t s"
    unfolding row by blast
  then show "map hit_number (ga_hits row) = [1..<Suc (length (ga_hits row))] \<and>
     sorted (map hit_time (ga_hits row))"
    using user_journey_numbers [of t s] user_journey_times [of t s] by simp
qed

theorem ga_hit_numbers_and_times_witness:
  "ga_example_row \<in> set (fst (ga_sessions_data 1 rng_conv)) \<and>
   map hit_number (ga_hits ga_example_row) = [1, 2, 3, 4] \<and>
   map hit_time (ga_hits ga_example_row) = [0, 35, 65, 78] \<and>
   sorted (map hit_time (ga_hits ga_example_row))"
proof -
  have n: "map hit_number (ga_hits ga_example_row) = [1, 2, 3, 4]"
    using arg_cong [OF ga_example_hits, of "map fst"] by (simp add: comp_def)
  have t: "map hit_time (ga_hits ga_example_row) = [0, 35, 65, 78]"
    using arg_cong [OF ga_example_hits, of "map (\<lambda>p. fst (snd p))"] by (simp add: comp_def)
  from ga_hit_numbers_and_times [of 1 rng_conv] ga_example_row_mem
  have "sorted (map hit_time (ga_hits ga_example_row))" by blast
  with n t ga_example_row_mem show ?thesis by blast
qed

text \<open>
  C5, as stated, fails in its last part: no draw gives a row with more clicks than
  impressions. The code applies no clamp, but the deviate behind the click-through rate
  is at most 12.0073, so the rate is at most 0.440219; at that largest rate the first
  row has 50 impressions and 22 clicks.
\<close>

theorem gsc_clicks_never_exceed_impressions:
  "gsc_first_row rng_hot \<in> set (fst (gsc_data 1 GSC_QUERIES rng_hot)) \<and>
   fst (draw_ctr ''knee pain'' (snd (draw_impressions ''knee pain'' rng_hot))) = 0.440219 \<and>
   gsc_impressions (gsc_first_row rng_hot) = 50 \<and>
   gsc_clicks (gsc_first_row rng_hot) = 22 \<and>
   \<not> (\<exists>num_days queries r. \<exists>row \<in> set (fst (gsc_data num_days queries r)).
         gsc_impressions row < gsc_clicks row)"
proof -
  have ctr: "fst (draw_ctr ''knee pain'' (snd (draw_impressions ''knee pain'' rng_hot))) =
      0.440219"
    by (simp add: rng_hot_def draw_impressions_def draw_ctr_def randint_def normal_def
                  standard_normal_def deviate_bound_def knee_pain_not_best)
  have never: "\<not> (\<exists>num_days queries r. \<exists>row \<in> set (fst (gsc_data num_days queries r)).
         gsc_impressions row < gsc_clicks row)"
  proof
    assume "\<exists>num_days queries r. \<exists>row \<in> set (fst (gsc_data num_days queries r)).
         gsc_impressions row < gsc_clicks row"
    then obtain num_days queries r row where
      mem: "row \<in> set (fst (gsc_data num_days queries r))" and
      more: "gsc_impressions row < gsc_clicks row"
      by blast
    from mem obtain day qp device r1 where "row = fst (gsc_row_of day qp device r1)"
      using gsc_data_mem by blast
    with gsc_row_clicks_le_impressions [of day qp device r1] more show False by simp
  qed
  with ctr gsc_first_row_mem [of rng_hot] gsc_first_row_hot show ?thesis by blast
qed

text \<open>
  C5, amended. Every row of the GSC table was produced by the row generator at some state
  of the random sources, and its clicks are \<open>max 0 (floor (impressions * ctr))\<close> for the
  click-through rate drawn at that state: from \<open>normal 0.005 0.001\<close> for the query
  "shoulder surgery recovery time", from \<open>normal 0.08 0.03\<close> for any other query. So
  clicks are never negative. No clamp from above is applied; all the same the clicks of a
  row never exceed its impressions, the click-through rate being below 1 for every draw.
\<close>

theorem gsc_clicks_floor_of_ctr:
  "\<forall>row \<in> set (fst (gsc_data num_days queries r)).
      0 \<le> gsc_clicks row \<and>
      gsc_clicks row \<le> gsc_impressions row \<and>
      (\<exists>day page device r1.
         row = fst (gsc_row_of day (gsc_query row, page) device r1) \<and>
         gsc_clicks row =
           max 0 \<lfloor>real_of_int (gsc_impressions row) *
                   fst (if gsc_query row = ''shoulder surgery recovery time''
                        then normal 0.005 0.001 (snd (draw_impressions (gsc_query row) r1))
                        else normal 0.08 0.03 (snd (draw_impressions (gsc_query row) r1)))\<rfloor>)"
proof
  fix row
  assume "row \<in> set (fst (gsc_data num_days queries r))"
  then obtain day qp device r1 where row0: "row = fst (gsc_row_of day qp device r1)"
    using gsc_data_mem by blast
  then have row: "row = fst (gsc_row_of day (fst qp, snd qp) device r1)" by simp
  have q: "gsc_query row = fst qp" unfolding row by (rule gsc_row_of_fields)
  have clicks: "gsc_clicks row =
      max 0 \<lfloor>real_of_int (gsc_impressions row) *
              fst (draw_ctr (fst qp) (snd (draw_impressions (fst qp) r1)))\<rfloor>"
    unfolding row gsc_row_of_fields by (rule max_py_int)
  have nonneg: "0 \<le> gsc_clicks row" unfolding clicks by simp
  have le: "gsc_clicks row \<le> gsc_impressions row"
    unfolding row0 by (rule gsc_row_clicks_le_impressions)
  have "row = fst (gsc_row_of day (gsc_query row, snd qp) device r1) \<and>
       gsc_clicks row =
         max 0 \<lfloor>real_of_int (gsc_impressions row) *
                 fst (if gsc_query row = ''shoulder surgery recovery time''
                      then normal 0.005 0.001 (snd (draw_impressions (gsc_query row) r1))
                      else normal 0.08 0.03 (snd (draw_impressions (gsc_query row) r1)))\<rfloor>"
    using row clicks unfolding q draw_ctr_def by simp
  with nonneg le show "0 \<le> gsc_clicks row \<and>
      gsc_clicks row \<le> gsc_impressions row \<and>
      (\<exists>day page device r1.
         row = fst (gsc_row_of day (gsc_query row, page) device r1) \<and>
         gsc_clicks row =
           max 0 \<lfloor>real_of_int (gsc_impressions row) *
                   fst (if gsc_query row = ''shoulder surgery recovery time''
                        then normal 0.005 0.001 (snd (draw_impressions (gsc_query row) r1))
                        else normal 0.08 0.03 (snd (draw_impressions (gsc_query row) r1)))\<rfloor>)"
    by blast
qed

theorem gsc_clicks_floor_of_ctr_witness:
  "gsc_first_row rng_gsc \<in> set (fst (gsc_data 1 GSC_QUERIES rng_gsc)) \<and>
   gsc_impressions (gsc_first_row rng_gsc) = 55 \<and>
   gsc_clicks (gsc_first_row rng_gsc) = 5 \<and>
   0 \<le> gsc_clicks (gsc_first_row rng_gsc) \<and>
   gsc_clicks (gsc_first_row rng_gsc) \<le> gsc_impressions (gsc_first_row rng_gsc)"
proof -
  from gsc_clicks_floor_of_ctr [of 1 GSC_QUERIES rng_gsc] gsc_first_row_mem [of rng_gsc]
  have "0 \<le> gsc_clicks (gsc_first_row rng_gsc) \<and>
        gsc_clicks (gsc_first_row rng_gsc) \<le> gsc_impressions (gsc_first_row rng_gsc)"
    by blast
  with gsc_first_row_mem [of rng_gsc] gsc_first_row_gsc show ?thesis by blast
qed

text \<open>
  C6, as stated, fails: the stored \<open>sum_position\<close> is not the rounded product. With an
  average position of 8.92 and 55 impressions the product is 490.6; it rounds to 491 and
  the row stores 490.
\<close>

theorem gsc_sum_position_not_rounded:
  "gsc_first_row rng_gsc \<in> set (fst (gsc_data 1 GSC_QUERIES rng_gsc)) \<and>
   gsc_query (gsc_first_row rng_gsc) = ''knee pain'' \<and>
   gsc_impressions (gsc_first_row rng_gsc) = 55 \<and>
   fst (normal 8 4 (snd (draw_ctr ''knee pain'' (snd (draw_impressions ''knee pain'' rng_gsc)))))
     = 8.92 \<and>
   round (8.92 * real_of_int 55) = 491 \<and>
   gsc_sum_position (gsc_first_row rng_gsc) = 490 \<and>
   gsc_sum_position (gsc_first_row rng_gsc) \<noteq>
     round (fst (normal 8 4 (snd (draw_ctr ''knee pain''
                                    (snd (draw_impressions ''knee pain'' rng_gsc))))) *
            real_of_int (gsc_impressions (gsc_first_row rng_gsc)))"
proof -
  have r: "round (8.92 * real_of_int 55) = 491" by (simp add: round_def)
  have q: "gsc_query (gsc_first_row rng_gsc) = ''knee pain''"
    by (simp add: gsc_first_row_def gsc_row_of_fields)
  have "gsc_sum_position (gsc_first_row rng_gsc) \<noteq>
     round (fst (normal 8 4 (snd (draw_ctr ''knee pain''
                                    (snd (draw_impressions ''knee pain'' rng_gsc))))) *
            real_of_int (gsc_impressions (gsc_first_row rng_gsc)))"
    unfolding gsc_first_row_avg_position gsc_first_row_gsc r by simp
  with r q show ?thesis
    using gsc_first_row_mem [of rng_gsc] gsc_first_row_gsc gsc_first_row_avg_position
    by blast
qed

text \<open>
  C6, amended. Every row of the GSC table was produced by the row generator at some state
  of the random sources, and its \<open>sum_position\<close> is the product of the average position
  and the impressions truncated towards zero (Python's \<open>int\<close>), for the average position
  drawn at that state: from \<open>normal 3.5 1.5\<close> for a query that contains "best", from
  \<open>normal 8 4\<close> for any other query.
\<close>

theorem gsc_sum_position_truncated:
  "\<forall>row \<in> set (fst (gsc_data num_days queries r)).
     \<exists>day page device r1.
       row = fst (gsc_row_of day (gsc_query row, page) device r1) \<and>
       gsc_sum_position row =
         py_int (fst (if sublist ''best'' (gsc_query row)
                      then normal 3.5 1.5
                             (snd (draw_ctr (gsc_query row)
                                     (snd (draw_impressions (gsc_query row) r1))))
                      else normal 8 4
                             (snd (draw_ctr (gsc_query row)
                                     (snd (draw_impressions (gsc_query row) r1))))) *
                 real_of_int (gsc_impressions row))"
proof
  fix row
  assume "row \<in> set (fst (gsc_data num_days queries r))"
  then obtain day qp device r1 where "row = fst (gsc_row_of day qp device r1)"
    using gsc_data_mem by blast
  then have row: "row = fst (gsc_row_of day (fst qp, snd qp) device r1)" by simp
  have q: "gsc_query row = fst qp" unfolding row by (rule gsc_row_of_fields)
  have "gsc_sum_position row =
      py_int (fst (draw_avg_position (fst qp)
                     (snd (draw_ctr (fst qp) (snd (draw_impressions (fst qp) r1))))) *
              real_of_int (gsc_impressions row))"
    unfolding row gsc_row_of_fields by (rule refl)
  then have "row = fst (gsc_row_of day (gsc_query row, snd qp) device r1) \<and>
       gsc_sum_position row =
         py_int (fst (if sublist ''best'' (gsc_query row)
                      then normal 3.5 1.5
                             (snd (draw_ctr (gsc_query row)
                                     (snd (draw_impressions (gsc_query row) r1))))
                      else normal 8 4
                             (snd (draw_ctr (gsc_query row)
                                     (snd (draw_impressions (gsc_query row) r1))))) *
                 real_of_int (gsc_impressions row))"
    using row unfolding q draw_avg_position_def by simp
  then show "\<exists>day page device r1.
       row = fst (gsc_row_of day (gsc_query row, page) device r1) \<and>
       gsc_sum_position row =
         py_int (fst (if sublist ''best'' (gsc_query row)
                      then normal 3.5 1.5
                             (snd (draw_ctr (gsc_query row)
                                     (snd (draw_impressions (gsc_query row) r1))))
                      else normal 8 4
                             (snd (draw_ctr (gsc_query row)
                                     (snd (draw_impressions (gsc_query row) r1))))) *
                 real_of_int (gsc_impressions row))"
    by blast
qed

theorem gsc_sum_position_truncated_witness:
  "gsc_first_row rng_gsc \<in> set (fst (gsc_data 1 GSC_QUERIES rng_gsc)) \<and>
   py_int (8.92 * real_of_int 55) = 490 \<and>
   gsc_sum_position (gsc_first_row rng_gsc) = 490 \<and>
   (\<exists>day page device r1.
      gsc_first_row rng_gsc =
        fst (gsc_row_of day (gsc_query (gsc_first_row rng_gsc), page) device r1) \<and>
      py_int (fst (if sublist ''best'' (gsc_query (gsc_first_row rng_gsc))
                   then normal 3.5 1.5
                          (snd (draw_ctr (gsc_query (gsc_first_row rng_gsc))
                                  (snd (draw_impressions (gsc_query (gsc_first_row rng_gsc)) r1))))
                   else normal 8 4
                          (snd (draw_ctr (gsc_query (gsc_first_row rng_gsc))
                                  (snd (draw_impressions (gsc_query (gsc_first_row rng_gsc)) r1))))) *
              real_of_int (gsc_impressions (gsc_first_row rng_gsc))) = 490)"
proof -
  have p: "py_int (8.92 * real_of_int 55) = 490" by (simp add: py_int_def)
  from gsc_sum_position_truncated [of 1 GSC_QUERIES rng_gsc] gsc_first_row_mem [of rng_gsc]
  have "\<exists>day page device r1.
      gsc_first_row rng_gsc =
        fst (gsc_row_of day (gsc_query (gsc_first_row rng_gsc), page) device r1) \<and>
      gsc_sum_position (gsc_first_row rng_gsc) =
      py_int (fst (if sublist ''best'' (gsc_query (gsc_first_row rng_gsc))
                   then normal 3.5 1.5
                          (snd (draw_ctr (gsc_query (gsc_first_row rng_gsc))
                                  (snd (draw_impressions (gsc_query (gsc_first_row rng_gsc)) r1))))
                   else normal 8 4
                          (snd (draw_ctr (gsc_query (gsc_first_row rng_gsc))
                                  (snd (draw_impressions (gsc_query (gsc_first_row rng_gsc)) r1))))) *
              real_of_int (gsc_impressions (gsc_first_row rng_gsc)))"
    by blast
  then show ?thesis
    using p gsc_first_row_mem [of rng_gsc] by (simp add: gsc_first_row_gsc)
qed

text \<open>
  C3. If every entry of the video catalog has \<open>avg_view_sec\<close> at most \<open>duration_sec\<close>,
  as the catalog of the script has, then in every row of the YouTube table
  \<open>watch_time_msec\<close> is at most \<open>potential_watch_time_msec\<close>.
\<close>

theorem yt_watch_time_le_potential:
  assumes "\<forall>video \<in> set videos. avg_view_sec (snd video) \<le> duration_sec (snd video)"
  shows "\<forall>row \<in> set (fst (yt_data num_days videos r)).
           yt_watch_time_msec row \<le> yt_potential_watch_time_msec row"
proof
  fix row
  assume "row \<in> set (fst (yt_data num_days videos r))"
  then obtain day video r' where video: "video \<in> set videos"
    and row: "row = fst (yt_row_of day video r')"
    using yt_data_mem by blast
  have views: "0 \<le> fst (randint 50 1500 r')"
    using randint_bounds [of 50 1500 r'] by simp
  from assms video have "avg_view_sec (snd video) \<le> duration_sec (snd video)" by blast
  with views have "fst (randint 50 1500 r') * avg_view_sec (snd video) \<le>
      fst (randint 50 1500 r') * duration_sec (snd video)"
    by (rule mult_left_mono [rotated])
  then show "yt_watch_time_msec row \<le> yt_potential_watch_time_msec row"
    unfolding row yt_row_of_times by simp
qed

theorem yt_watch_time_le_potential_witness:
  "yt_example_row \<in> set (fst (yt_data 1 YT_VIDEOS rng_zero)) \<and>
   yt_watch_time_msec yt_example_row = 1500000 \<and>
   yt_potential_watch_time_msec yt_example_row = 9000000 \<and>
   yt_watch_time_msec yt_example_row \<le> yt_potential_watch_time_msec yt_example_row"
proof -
  have catalog: "\<forall>video \<in> set YT_VIDEOS. avg_view_sec (snd video) \<le> duration_sec (snd video)"
    by (simp add: YT_VIDEOS_def)
  from yt_watch_time_le_potential [OF catalog, of 1 rng_zero] yt_example_row_mem
  have "yt_watch_time_msec yt_example_row \<le> yt_potential_watch_time_msec yt_example_row"
    by blast
  with yt_example_row_mem yt_example_row_times show ?thesis by blast
qed

end
